theory Spec2Isabelle
  imports Complex_Main
begin

section \<open>Potential energy surface scans: a shallow embedding of the orchestration code\<close>

text \<open>
  The repository wires external quantum-chemistry libraries together. The libraries
  (the qubit operator's attributes, the constructors of the ansatz circuits and their
  parameter count, NumPy's seeded generator, the VQE optimisation loop and the dense
  eigensolver) are not part of the
  sources; the embedding takes them as the fields of a record \<open>libs\<close>, so every theorem
  holds for whatever these libraries compute. Python floats are idealised as \<open>real\<close>,
  Python integers are \<open>int\<close>, and an exception is the \<open>Inl\<close> branch of the result.
  What the code does beyond returning a value (calling a collaborator, printing progress)
  is recorded in a trace of events, in program order; \<open>run_vqe\<close> and \<open>exact_energy\<close> record
  their own invocation, so that the trace shows the arguments they have really received.
\<close>

subsection \<open>Errors, events and sequencing\<close>

datatype 'x error =
    ValueError string  \<comment> \<open>raised by \<open>run_vqe\<close> itself\<close>
  | LibraryError 'x    \<comment> \<open>any exception raised inside an external library or the builder,
                           whatever its Python class\<close>

datatype ansatz =
    RealAmplitudes nat int string   \<comment> \<open>\<open>num_qubits\<close>, \<open>reps\<close>, \<open>entanglement\<close>\<close>
  | EfficientSU2 nat int string

datatype optimizer = COBYLA int     \<comment> \<open>\<open>maxiter\<close>\<close>

datatype estimator = Estimator

datatype vqe = VQE estimator ansatz optimizer "real list"
  \<comment> \<open>the fields \<open>estimator\<close>, \<open>ansatz\<close>, \<open>optimizer\<close> and \<open>initial_point\<close> of the solver object\<close>

fun vqe_ansatz :: "vqe \<Rightarrow> ansatz" where
  "vqe_ansatz (VQE est a opt ip) = a"

fun vqe_initial_point :: "vqe \<Rightarrow> real list" where
  "vqe_initial_point (VQE est a opt ip) = ip"

datatype 'op event =
    Print_progress nat nat real             \<comment> \<open>\<open>[i + 1/len(distances)] d = ...\<close>\<close>
  | Print_energies real real real           \<comment> \<open>\<open>VQE=..., Exact=..., Error=... mHa\<close>\<close>
  | Call_molecule_builder real
  | Call_run_vqe 'op string int int int     \<comment> \<open>operator, ansatz name, reps, maxiter, seed\<close>
  | Call_exact_energy 'op
  | Call_ansatz ansatz                      \<comment> \<open>the constructor of an ansatz circuit\<close>
  | Call_default_rng int
  | Call_vqe_compute vqe 'op                \<comment> \<open>the optimisation loop of the VQE object\<close>
  | Call_eigensolver 'op                    \<comment> \<open>the dense diagonalisation\<close>

type_synonym ('op, 'x, 'a) py = "'op event list \<times> ('x error + 'a)"

definition py_return :: "'a \<Rightarrow> ('op, 'x, 'a) py" where
  "py_return v = ([], Inr v)"

definition py_raise :: "'x error \<Rightarrow> ('op, 'x, 'a) py" where
  "py_raise e = ([], Inl e)"

definition py_emit :: "'op event \<Rightarrow> ('op, 'x, unit) py" where
  "py_emit ev = ([ev], Inr ())"

text \<open>A call of an external function: the call is recorded, an exception of the callee
  becomes a \<open>LibraryError\<close> of the caller, unchanged.\<close>

definition py_call :: "'op event \<Rightarrow> 'x + 'a \<Rightarrow> ('op, 'x, 'a) py" where
  "py_call ev r = ([ev], case r of Inl x \<Rightarrow> Inl (LibraryError x) | Inr v \<Rightarrow> Inr v)"

text \<open>Sequencing: the statements after a raising statement do not run.\<close>

definition py_bind :: "('op, 'x, 'a) py \<Rightarrow> ('a \<Rightarrow> ('op, 'x, 'b) py) \<Rightarrow> ('op, 'x, 'b) py" where
  "py_bind m f =
     (case m of
        (tr, Inl e) \<Rightarrow> (tr, Inl e)
      | (tr, Inr v) \<Rightarrow> (case f v of (tr', r) \<Rightarrow> (tr @ tr', r)))"

subsection \<open>The external libraries\<close>

record problem =
  nuclear_repulsion_energy :: real

record 'p vqe_raw_result =
  eigenvalue :: complex
  optimal_parameters :: 'p

type_synonym callback_args = "nat \<times> real list \<times> real \<times> real"
  \<comment> \<open>\<open>(eval_count, params, value, std)\<close>\<close>

record ('op, 'rng, 'p, 'x) libs =
  num_qubits :: "'op \<Rightarrow> nat"
    \<comment> \<open>\<open>hamiltonian.num_qubits\<close>\<close>
  ansatz_init :: "ansatz \<Rightarrow> 'x + unit"
    \<comment> \<open>the constructors \<open>RealAmplitudes(...)\<close> and \<open>EfficientSU2(...)\<close>: the library checks
        the arguments and may raise\<close>
  num_parameters :: "ansatz \<Rightarrow> nat"
    \<comment> \<open>\<open>ansatz.num_parameters\<close>\<close>
  default_rng :: "int \<Rightarrow> 'x + 'rng"
    \<comment> \<open>\<open>np.random.default_rng(seed)\<close>\<close>
  uniform :: "'rng \<Rightarrow> real \<Rightarrow> real \<Rightarrow> nat \<Rightarrow> real list"
    \<comment> \<open>\<open>rng.uniform(low, high, size)\<close>\<close>
  vqe_compute_minimum_eigenvalue ::
    "vqe \<Rightarrow> 'op \<Rightarrow> callback_args list \<times> ('x + 'p vqe_raw_result)"
    \<comment> \<open>\<open>vqe.compute_minimum_eigenvalue(hamiltonian)\<close>: the callback invocations it makes,
        in order, and its outcome\<close>
  numpy_compute_minimum_eigenvalue :: "'op \<Rightarrow> 'x + complex"
    \<comment> \<open>\<open>NumPyMinimumEigensolver().compute_minimum_eigenvalue(hamiltonian).eigenvalue\<close>\<close>

subsection \<open>\<open>exact_solver.py\<close>\<close>

text \<open>A function of the repository records its own invocation, with the arguments it has
  received, as the first event of its trace.\<close>

definition exact_energy ::
  "('op, 'rng, 'p, 'x) libs \<Rightarrow> 'op \<Rightarrow> ('op, 'x, real) py" where
  "exact_energy L hamiltonian =
     py_bind (py_emit (Call_exact_energy hamiltonian)) (\<lambda>_.
     py_bind (py_call (Call_eigensolver hamiltonian)
                (numpy_compute_minimum_eigenvalue L hamiltonian)) (\<lambda>result_eigenvalue.
     py_return (Re result_eigenvalue)))"

subsection \<open>\<open>vqe_runner.py\<close>\<close>

record 'p vqe_result =
  energy :: real
  optimal_params :: 'p
  energy_history :: "real list"
  num_params :: nat
  ansatz_type :: string

text \<open>The recording callback of \<open>run_vqe\<close>: it appends the objective value.\<close>

definition callback :: "real list \<Rightarrow> callback_args \<Rightarrow> real list" where
  "callback history = (\<lambda>(eval_count, params, val, std). history @ [val])"

text \<open>A constructor call \<open>RealAmplitudes(...)\<close> or \<open>EfficientSU2(...)\<close>: the library may
  reject the arguments (a negative \<open>reps\<close>, for one) by raising; otherwise the circuit is the
  one that the class and the arguments describe.\<close>

definition new_ansatz :: "('op, 'rng, 'p, 'x) libs \<Rightarrow> ansatz \<Rightarrow> ('op, 'x, ansatz) py" where
  "new_ansatz L a =
     py_bind (py_call (Call_ansatz a) (ansatz_init L a)) (\<lambda>_. py_return a)"

definition run_vqe ::
  "('op, 'rng, 'p, 'x) libs \<Rightarrow> 'op \<Rightarrow> string \<Rightarrow> int \<Rightarrow> int \<Rightarrow> int
     \<Rightarrow> ('op, 'x, 'p vqe_result) py" where
  "run_vqe L hamiltonian atype reps maxiter seed =
     py_bind (py_emit (Call_run_vqe hamiltonian atype reps maxiter seed)) (\<lambda>_.
     (let nq = num_qubits L hamiltonian in
      py_bind
        (if atype = ''RealAmplitudes'' then new_ansatz L (RealAmplitudes nq reps ''linear'')
         else if atype = ''EfficientSU2'' then new_ansatz L (EfficientSU2 nq reps ''circular'')
         else py_raise (ValueError (''Unknown ansatz type: '' @ atype))) (\<lambda>ansatz.
      let optimizer = COBYLA maxiter;
          estimator = Estimator
      in
      py_bind (py_call (Call_default_rng seed) (default_rng L seed)) (\<lambda>rng.
      let initial_point = uniform L rng (- pi) pi (num_parameters L ansatz);
          solver = VQE estimator ansatz optimizer initial_point;
          (calls, outcome) = vqe_compute_minimum_eigenvalue L solver hamiltonian
      in
      py_bind (py_call (Call_vqe_compute solver hamiltonian) outcome) (\<lambda>result.
      py_return
        \<lparr> energy = Re (eigenvalue result),
          optimal_params = optimal_parameters result,
          energy_history = foldl callback [] calls,
          num_params = num_parameters L ansatz,
          ansatz_type = atype \<rparr>)))))"

subsection \<open>\<open>pes_scan.py\<close>\<close>

type_synonym scan_lists = "real list \<times> real list \<times> real list \<times> real list"
  \<comment> \<open>\<open>vqe_energies\<close>, \<open>exact_energies\<close>, \<open>errors\<close>, \<open>nuclear_repulsions\<close>\<close>

text \<open>The body of the loop of \<open>scan_pes\<close> at the point \<open>d\<close> with index \<open>i\<close>, up to the
  computation of \<open>error\<close>; \<open>n\<close> is \<open>len(distances)\<close>. It yields \<open>vqe_e\<close>, \<open>exact_e\<close>,
  \<open>error\<close> and \<open>nuc_repulsion\<close>.\<close>

definition scan_point ::
  "('op, 'rng, 'p, 'x) libs \<Rightarrow> (real \<Rightarrow> 'x + 'op \<times> problem) \<Rightarrow> string \<Rightarrow> int \<Rightarrow> int \<Rightarrow> int
     \<Rightarrow> nat \<Rightarrow> nat \<Rightarrow> real \<Rightarrow> ('op, 'x, real \<times> real \<times> real \<times> real) py" where
  "scan_point L molecule_builder atype reps maxiter seed n i d =
     py_bind (py_emit (Print_progress (i + 1) n d)) (\<lambda>_.
     py_bind (py_call (Call_molecule_builder d) (molecule_builder d)) (\<lambda>(qubit_op, problem).
     let nuc_repulsion = nuclear_repulsion_energy problem in
     py_bind (run_vqe L qubit_op atype reps maxiter (seed + int i)) (\<lambda>vqe_result.
     let vqe_e = energy vqe_result + nuc_repulsion in
     py_bind (exact_energy L qubit_op) (\<lambda>exact_electronic.
     let exact_e = exact_electronic + nuc_repulsion;
         error = \<bar>vqe_e - exact_e\<bar>
     in
     py_return (vqe_e, exact_e, error, nuc_repulsion)))))"

text \<open>The loop over \<open>enumerate(distances)\<close>: after the body, the four values are appended
  to the four lists, the energies are printed, and the loop goes on with the next index.\<close>

fun scan_loop ::
  "('op, 'rng, 'p, 'x) libs \<Rightarrow> (real \<Rightarrow> 'x + 'op \<times> problem) \<Rightarrow> string \<Rightarrow> int \<Rightarrow> int \<Rightarrow> int
     \<Rightarrow> nat \<Rightarrow> nat \<Rightarrow> real list \<Rightarrow> scan_lists \<Rightarrow> ('op, 'x, scan_lists) py" where
  "scan_loop L molecule_builder atype reps maxiter seed n i [] acc = py_return acc"
| "scan_loop L molecule_builder atype reps maxiter seed n i (d # ds)
     (vqe_energies, exact_energies, errors, nuclear_repulsions) =
     py_bind (scan_point L molecule_builder atype reps maxiter seed n i d)
       (\<lambda>(vqe_e, exact_e, error, nuc_repulsion).
     py_bind (py_emit (Print_energies vqe_e exact_e (error * 1000))) (\<lambda>_.
     scan_loop L molecule_builder atype reps maxiter seed n (i + 1) ds
       (vqe_energies @ [vqe_e], exact_energies @ [exact_e], errors @ [error],
        nuclear_repulsions @ [nuc_repulsion])))"

text \<open>The returned dictionary. \<open>np.array(distances)\<close> and \<open>.tolist()\<close> keep a sequence of
  floats as it is.\<close>

definition scan_pes ::
  "('op, 'rng, 'p, 'x) libs \<Rightarrow> (real \<Rightarrow> 'x + 'op \<times> problem) \<Rightarrow> real list \<Rightarrow> string \<Rightarrow> int
     \<Rightarrow> int \<Rightarrow> int \<Rightarrow> ('op, 'x, string \<rightharpoonup> real list) py" where
  "scan_pes L molecule_builder distances atype reps maxiter seed =
     py_bind (scan_loop L molecule_builder atype reps maxiter seed (length distances) 0
                distances ([], [], [], []))
       (\<lambda>(vqe_energies, exact_energies, errors, nuclear_repulsions).
     py_return
       [''distances'' \<mapsto> distances,
        ''vqe_energies'' \<mapsto> vqe_energies,
        ''exact_energies'' \<mapsto> exact_energies,
        ''errors'' \<mapsto> errors,
        ''nuclear_repulsions'' \<mapsto> nuclear_repulsions])"

text \<open>The invocations of \<open>run_vqe\<close> in a trace, each recorded by \<open>run_vqe\<close> itself with the
  arguments it has received, in order.\<close>

fun run_vqe_calls :: "'op event list \<Rightarrow> ('op \<times> string \<times> int \<times> int \<times> int) list" where
  "run_vqe_calls [] = []"
| "run_vqe_calls (Call_run_vqe qubit_op atype reps maxiter seed # evs) =
     (qubit_op, atype, reps, maxiter, seed) # run_vqe_calls evs"
| "run_vqe_calls (ev # evs) = run_vqe_calls evs"



text \<open>The ansatz that \<open>run_vqe\<close> constructs for a supported ansatz name.\<close>

abbreviation requested_ansatz ::
  "('op, 'rng, 'p, 'x) libs \<Rightarrow> 'op \<Rightarrow> string \<Rightarrow> int \<Rightarrow> ansatz" where
  "requested_ansatz L hamiltonian atype reps \<equiv>
     (if atype = ''RealAmplitudes'' then RealAmplitudes (num_qubits L hamiltonian) reps ''linear''
      else EfficientSU2 (num_qubits L hamiltonian) reps ''circular'')"


subsection \<open>\<open>molecules.py\<close>: the geometry of \<open>build_beh2\<close>\<close>

text \<open>\<open>np.radians\<close>.\<close>

definition radians :: "real \<Rightarrow> real" where
  "radians x = x * pi / 180"

text \<open>The coordinate string of \<open>build_beh2\<close>; \<open>fmt6\<close> is Python's \<open>format(x, ".6f")\<close>,
  which the f-string applies to the three computed coordinates.\<close>

definition beh2_atom_string :: "(real \<Rightarrow> string) \<Rightarrow> real \<Rightarrow> string" where
  "beh2_atom_string fmt6 angle =
     (let d = 1.326;
          half_angle = radians (angle / 2.0);
          h1_y = d * sin half_angle;
          h1_z = d * cos half_angle
      in ''Be 0.0 0.0 0.0; '' @
         ''H 0.0 '' @ fmt6 h1_y @ '' '' @ fmt6 h1_z @ ''; '' @
         ''H 0.0 '' @ fmt6 (- h1_y) @ '' '' @ fmt6 h1_z)"

text \<open>\<open>build_beh2\<close>: the string goes to the chemistry pipeline (the PySCF driver with the
  STO-3G basis, charge 0, spin 0, in Angstrom, the active-space transformer and the
  Jordan-Wigner mapper), which is external and taken as the parameter \<open>pipeline\<close>.\<close>

definition build_beh2 ::
  "(real \<Rightarrow> string) \<Rightarrow> (string \<Rightarrow> 'x + 'op \<times> problem) \<Rightarrow> real \<Rightarrow> 'x + 'op \<times> problem" where
  "build_beh2 fmt6 pipeline angle = pipeline (beh2_atom_string fmt6 angle)"

subsection \<open>A concrete instance of the libraries\<close>

text \<open>A small instance on which the model can be evaluated: operators are their qubit
  counts, the generator is its seed, and the solvers return fixed values.\<close>

definition toy_libs :: "(nat, int, real list, string) libs" where
  "toy_libs =
     \<lparr> num_qubits = (\<lambda>h. h),
       ansatz_init = (\<lambda>a. case a of
           RealAmplitudes q r e \<Rightarrow> if r < 0 then Inl ''negative reps'' else Inr ()
         | EfficientSU2 q r e \<Rightarrow> if r < 0 then Inl ''negative reps'' else Inr ()),
       num_parameters = (\<lambda>a. case a of
           RealAmplitudes q r e \<Rightarrow> q * nat (r + 1)
         | EfficientSU2 q r e \<Rightarrow> 2 * q * nat (r + 1)),
       default_rng = (\<lambda>s. if s < 0 then Inl ''negative seed'' else Inr s),
       uniform = (\<lambda>g lo hi k. replicate k lo),
       vqe_compute_minimum_eigenvalue = (\<lambda>v h.
           ([(1, vqe_initial_point v, - 1, 0)],
            Inr \<lparr> eigenvalue = Complex (- 1) 0, optimal_parameters = vqe_initial_point v \<rparr>)),
       numpy_compute_minimum_eigenvalue = (\<lambda>h. if h = 0 then Inl ''empty operator''
           else Inr (Complex (- 9 / 8) 0)) \<rparr>"

definition toy_builder :: "real \<Rightarrow> string + nat \<times> problem" where
  "toy_builder d =
     (if d \<le> 0 then Inl ''bad geometry''
      else Inr (2, \<lparr> nuclear_repulsion_energy = 1 / d \<rparr>))"


text \<open>The table that the scan of the points \<open>1\<close> and \<open>2\<close> yields on this instance.\<close>

definition toy_table :: "string \<rightharpoonup> real list" where
  "toy_table =
     [''distances'' \<mapsto> [1, 2], ''vqe_energies'' \<mapsto> [0, - (1 / 2)],
      ''exact_energies'' \<mapsto> [- (1 / 8), - (5 / 8)], ''errors'' \<mapsto> [1 / 8, 1 / 8],
      ''nuclear_repulsions'' \<mapsto> [1, 1 / 2]]"

section \<open>Properties\<close>

subsection \<open>Sequencing and the loop\<close>

lemma py_bind_Inl [simp]: "py_bind (tr, Inl e) f = (tr, Inl e)"
  by (simp add: py_bind_def)

lemma py_bind_Inr [simp]: "py_bind (tr, Inr v) f = (tr @ fst (f v), snd (f v))"
  by (simp add: py_bind_def split: prod.splits)

lemma snd_py_bind:
  "snd (py_bind m f) = (case snd m of Inl e \<Rightarrow> Inl e | Inr v \<Rightarrow> snd (f v))"
  by (cases m; cases "snd m") auto

lemma fst_py_bind:
  "fst (py_bind m f) = (case snd m of Inl e \<Rightarrow> fst m | Inr v \<Rightarrow> fst m @ fst (f v))"
  by (cases m; cases "snd m") auto


lemma foldl_callback: "foldl callback h cs = h @ map (\<lambda>(c, p, v, s). v) cs"
  by (induction cs arbitrary: h) (auto simp: callback_def)

lemma snd_scan_point_Inr:
  "snd (scan_point L mb a r m s n i d) = Inr (v, x, e, u) \<longleftrightarrow>
     (\<exists>op prob res ex. mb d = Inr (op, prob) \<and>
        snd (run_vqe L op a r m (s + int i)) = Inr res \<and>
        snd (exact_energy L op) = Inr ex \<and>
        u = nuclear_repulsion_energy prob \<and> v = energy res + u \<and> x = ex + u \<and>
        e = \<bar>v - x\<bar>)"
  by (auto simp: scan_point_def snd_py_bind py_emit_def py_call_def py_return_def Let_def
      split: sum.splits prod.splits)

lemma snd_scan_point_Inl:
  "snd (scan_point L mb a r m s n i d) = Inl e \<longleftrightarrow>
     (\<exists>x. mb d = Inl x \<and> e = LibraryError x) \<or>
     (\<exists>op prob. mb d = Inr (op, prob) \<and>
        (snd (run_vqe L op a r m (s + int i)) = Inl e \<or>
         (\<exists>res. snd (run_vqe L op a r m (s + int i)) = Inr res \<and>
            snd (exact_energy L op) = Inl e)))"
  by (auto simp: scan_point_def snd_py_bind py_emit_def py_call_def py_return_def Let_def
      split: sum.splits prod.splits)

lemma snd_scan_loop_Cons:
  "snd (scan_loop L mb a r m s n i (d # ds) (V, X, E, N)) =
     (case snd (scan_point L mb a r m s n i d) of
        Inl e \<Rightarrow> Inl e
      | Inr (v, x, e, u) \<Rightarrow>
          snd (scan_loop L mb a r m s n (Suc i) ds (V @ [v], X @ [x], E @ [e], N @ [u])))"
  by (simp add: scan_loop.simps(2) snd_py_bind py_emit_def split: sum.splits prod.splits)

declare scan_loop.simps(2) [simp del]

lemma scan_loop_Inr:
  "snd (scan_loop L mb a r m s n i ds (V, X, E, N)) = Inr (V', X', E', N') \<Longrightarrow>
     \<exists>pts. length pts = length ds \<and>
       V' = V @ map (\<lambda>(v, x, e, u). v) pts \<and> X' = X @ map (\<lambda>(v, x, e, u). x) pts \<and>
       E' = E @ map (\<lambda>(v, x, e, u). e) pts \<and> N' = N @ map (\<lambda>(v, x, e, u). u) pts \<and>
       (\<forall>k<length ds. snd (scan_point L mb a r m s n (i + k) (ds ! k)) = Inr (pts ! k))"
proof (induction ds arbitrary: i V X E N)
  case Nil
  then show ?case by (simp add: py_return_def)
next
  case (Cons d ds)
  from Cons.prems obtain v x e u where
    pt: "snd (scan_point L mb a r m s n i d) = Inr (v, x, e, u)" and
    rest: "snd (scan_loop L mb a r m s n (Suc i) ds (V @ [v], X @ [x], E @ [e], N @ [u]))
             = Inr (V', X', E', N')"
    by (auto simp: snd_scan_loop_Cons split: sum.splits prod.splits)
  from Cons.IH [OF rest] obtain pts where
    pts: "length pts = length ds"
      "V' = (V @ [v]) @ map (\<lambda>(v, x, e, u). v) pts"
      "X' = (X @ [x]) @ map (\<lambda>(v, x, e, u). x) pts"
      "E' = (E @ [e]) @ map (\<lambda>(v, x, e, u). e) pts"
      "N' = (N @ [u]) @ map (\<lambda>(v, x, e, u). u) pts"
      "\<forall>k<length ds. snd (scan_point L mb a r m s n (Suc i + k) (ds ! k)) = Inr (pts ! k)"
    by blast
  have "\<forall>k<length (d # ds).
          snd (scan_point L mb a r m s n (i + k) ((d # ds) ! k)) = Inr (((v, x, e, u) # pts) ! k)"
  proof (intro allI impI)
    fix k assume "k < length (d # ds)"
    then show "snd (scan_point L mb a r m s n (i + k) ((d # ds) ! k))
                 = Inr (((v, x, e, u) # pts) ! k)"
      using pt pts(6) by (cases k) auto
  qed
  with pts show ?case
    by (intro exI [of _ "(v, x, e, u) # pts"]) auto
qed

lemma scan_loop_Inl:
  "snd (scan_loop L mb a r m s n i ds acc) = Inl e \<longleftrightarrow>
     (\<exists>k<length ds. snd (scan_point L mb a r m s n (i + k) (ds ! k)) = Inl e \<and>
        (\<forall>j<k. \<exists>pt. snd (scan_point L mb a r m s n (i + j) (ds ! j)) = Inr pt))"
proof (induction ds arbitrary: i acc)
  case Nil
  then show ?case by (simp add: py_return_def)
next
  case (Cons d ds)
  obtain V X E N where acc: "acc = (V, X, E, N)" by (cases acc) auto
  show ?case
  proof (cases "snd (scan_point L mb a r m s n i d)")
    case (Inl e')
    have "(\<exists>k<length (d # ds). snd (scan_point L mb a r m s n (i + k) ((d # ds) ! k)) = Inl e \<and>
        (\<forall>j<k. \<exists>pt. snd (scan_point L mb a r m s n (i + j) ((d # ds) ! j)) = Inr pt)) \<longleftrightarrow> e' = e"
    proof
      assume "\<exists>k<length (d # ds). snd (scan_point L mb a r m s n (i + k) ((d # ds) ! k)) = Inl e \<and>
        (\<forall>j<k. \<exists>pt. snd (scan_point L mb a r m s n (i + j) ((d # ds) ! j)) = Inr pt)"
      then obtain k where k: "k < length (d # ds)"
        "snd (scan_point L mb a r m s n (i + k) ((d # ds) ! k)) = Inl e"
        "\<forall>j<k. \<exists>pt. snd (scan_point L mb a r m s n (i + j) ((d # ds) ! j)) = Inr pt"
        by blast
      show "e' = e"
      proof (cases k)
        case 0
        with k(2) Inl show ?thesis by simp
      next
        case (Suc k')
        with k(3) have "\<exists>pt. snd (scan_point L mb a r m s n (i + 0) ((d # ds) ! 0)) = Inr pt"
          by blast
        with Inl show ?thesis by simp
      qed
    next
      assume "e' = e"
      with Inl show "\<exists>k<length (d # ds). snd (scan_point L mb a r m s n (i + k) ((d # ds) ! k)) = Inl e \<and>
        (\<forall>j<k. \<exists>pt. snd (scan_point L mb a r m s n (i + j) ((d # ds) ! j)) = Inr pt)"
        by (intro exI [of _ 0]) simp
    qed
    with Inl acc show ?thesis by (simp add: snd_scan_loop_Cons)
  next
    case (Inr pt)
    obtain v x e0 u where pt: "pt = (v, x, e0, u)" by (cases pt) auto
    have step: "snd (scan_loop L mb a r m s n i (d # ds) acc) =
            snd (scan_loop L mb a r m s n (Suc i) ds (V @ [v], X @ [x], E @ [e0], N @ [u]))"
      using Inr pt acc by (simp add: snd_scan_loop_Cons)
    have "(\<exists>k<length (d # ds). snd (scan_point L mb a r m s n (i + k) ((d # ds) ! k)) = Inl e \<and>
        (\<forall>j<k. \<exists>pt. snd (scan_point L mb a r m s n (i + j) ((d # ds) ! j)) = Inr pt)) \<longleftrightarrow>
       (\<exists>k<length ds. snd (scan_point L mb a r m s n (Suc i + k) (ds ! k)) = Inl e \<and>
        (\<forall>j<k. \<exists>pt. snd (scan_point L mb a r m s n (Suc i + j) (ds ! j)) = Inr pt))"
      (is "?A \<longleftrightarrow> ?B")
    proof
      assume ?A
      then obtain k where k: "k < length (d # ds)"
        "snd (scan_point L mb a r m s n (i + k) ((d # ds) ! k)) = Inl e"
        "\<forall>j<k. \<exists>pt. snd (scan_point L mb a r m s n (i + j) ((d # ds) ! j)) = Inr pt"
        by blast
      from k(2) Inr obtain k' where k': "k = Suc k'" by (cases k) auto
      have "\<forall>j<k'. \<exists>pt. snd (scan_point L mb a r m s n (Suc i + j) (ds ! j)) = Inr pt"
      proof (intro allI impI)
        fix j assume "j < k'"
        then have "Suc j < k" using k' by simp
        with k(3) have "\<exists>pt. snd (scan_point L mb a r m s n (i + Suc j) ((d # ds) ! Suc j)) = Inr pt"
          by blast
        then show "\<exists>pt. snd (scan_point L mb a r m s n (Suc i + j) (ds ! j)) = Inr pt" by simp
      qed
      with k k' show ?B by (intro exI [of _ k']) simp
    next
      assume ?B
      then obtain k where k: "k < length ds"
        "snd (scan_point L mb a r m s n (Suc i + k) (ds ! k)) = Inl e"
        "\<forall>j<k. \<exists>pt. snd (scan_point L mb a r m s n (Suc i + j) (ds ! j)) = Inr pt"
        by blast
      have "\<forall>j<Suc k. \<exists>pt. snd (scan_point L mb a r m s n (i + j) ((d # ds) ! j)) = Inr pt"
      proof (intro allI impI)
        fix j assume "j < Suc k"
        then show "\<exists>pt. snd (scan_point L mb a r m s n (i + j) ((d # ds) ! j)) = Inr pt"
          using Inr k(3) pt by (cases j) auto
      qed
      with k show ?A by (intro exI [of _ "Suc k"]) simp
    qed
    with step Cons.IH [of "Suc i"] show ?thesis by simp
  qed
qed

subsection \<open>The two solvers\<close>

lemma exact_energy_unfold:
  "exact_energy L h =
     ([Call_exact_energy h, Call_eigensolver h],
      case numpy_compute_minimum_eigenvalue L h of
        Inl x \<Rightarrow> Inl (LibraryError x) | Inr z \<Rightarrow> Inr (Re z))"
  by (simp add: exact_energy_def py_emit_def py_call_def py_return_def split: sum.splits)

lemma snd_exact_energy_Inr:
  "snd (exact_energy L h) = Inr ex \<longleftrightarrow>
     (\<exists>z. numpy_compute_minimum_eigenvalue L h = Inr z \<and> ex = Re z)"
  by (auto simp: exact_energy_unfold split: sum.splits)

lemma run_vqe_unsupported:
  "atype \<noteq> ''RealAmplitudes'' \<Longrightarrow> atype \<noteq> ''EfficientSU2'' \<Longrightarrow>
     run_vqe L h atype reps maxiter seed =
       ([Call_run_vqe h atype reps maxiter seed],
        Inl (ValueError (''Unknown ansatz type: '' @ atype)))"
  by (simp add: run_vqe_def py_raise_def py_emit_def)

lemma run_vqe_supported:
  assumes "atype = ''RealAmplitudes'' \<or> atype = ''EfficientSU2''"
  shows "run_vqe L h atype reps maxiter seed =
     (let ansatz = (if atype = ''RealAmplitudes''
                    then RealAmplitudes (num_qubits L h) reps ''linear''
                    else EfficientSU2 (num_qubits L h) reps ''circular'')
      in case ansatz_init L ansatz of
           Inl x \<Rightarrow>
             ([Call_run_vqe h atype reps maxiter seed, Call_ansatz ansatz],
              Inl (LibraryError x))
         | Inr u \<Rightarrow>
      (case default_rng L seed of
           Inl x \<Rightarrow>
             ([Call_run_vqe h atype reps maxiter seed, Call_ansatz ansatz,
               Call_default_rng seed], Inl (LibraryError x))
         | Inr g \<Rightarrow>
            (let solver = VQE Estimator ansatz (COBYLA maxiter)
                            (uniform L g (- pi) pi (num_parameters L ansatz))
             in ([Call_run_vqe h atype reps maxiter seed, Call_ansatz ansatz,
                  Call_default_rng seed, Call_vqe_compute solver h],
                 case snd (vqe_compute_minimum_eigenvalue L solver h) of
                   Inl x \<Rightarrow> Inl (LibraryError x)
                 | Inr result \<Rightarrow>
                     Inr \<lparr> energy = Re (eigenvalue result),
                           optimal_params = optimal_parameters result,
                           energy_history =
                             map (\<lambda>(c, p, v, s). v)
                               (fst (vqe_compute_minimum_eigenvalue L solver h)),
                           num_params = num_parameters L ansatz,
                           ansatz_type = atype \<rparr>))))"
  using assms
  by (auto simp: run_vqe_def new_ansatz_def py_return_def py_call_def py_emit_def Let_def
      foldl_callback split: sum.splits prod.splits)

subsection \<open>What a scan records\<close>



lemma run_vqe_cases [case_names unknown ansatz rng compute]:
  obtains
    "run_vqe L h a r m s =
       ([Call_run_vqe h a r m s], Inl (ValueError (''Unknown ansatz type: '' @ a)))"
  | x where
    "run_vqe L h a r m s =
       ([Call_run_vqe h a r m s, Call_ansatz (requested_ansatz L h a r)], Inl (LibraryError x))"
  | x where
    "run_vqe L h a r m s =
       ([Call_run_vqe h a r m s, Call_ansatz (requested_ansatz L h a r), Call_default_rng s],
        Inl (LibraryError x))"
  | g out where
    "default_rng L s = Inr g"
    "run_vqe L h a r m s =
       ([Call_run_vqe h a r m s, Call_ansatz (requested_ansatz L h a r), Call_default_rng s,
         Call_vqe_compute
           (VQE Estimator (requested_ansatz L h a r) (COBYLA m)
              (uniform L g (- pi) pi (num_parameters L (requested_ansatz L h a r)))) h],
        out)"
proof (cases "a = ''RealAmplitudes'' \<or> a = ''EfficientSU2''")
  case False
  then have "run_vqe L h a r m s =
       ([Call_run_vqe h a r m s], Inl (ValueError (''Unknown ansatz type: '' @ a)))"
    by (simp add: run_vqe_unsupported)
  then show ?thesis by (rule that(1))
next
  case True
  define A where "A = requested_ansatz L h a r"
  note eq = run_vqe_supported [OF True, of L h r m s, folded A_def]
  show ?thesis
  proof (cases "ansatz_init L A")
    case (Inl x)
    with eq have "run_vqe L h a r m s =
        ([Call_run_vqe h a r m s, Call_ansatz A], Inl (LibraryError x))"
      by (simp add: Let_def)
    then show ?thesis unfolding A_def by (rule that(2))
  next
    case init: (Inr u)
    show ?thesis
    proof (cases "default_rng L s")
      case (Inl x)
      with eq init have "run_vqe L h a r m s =
          ([Call_run_vqe h a r m s, Call_ansatz A, Call_default_rng s], Inl (LibraryError x))"
        by (simp add: Let_def)
      then show ?thesis unfolding A_def by (rule that(3))
    next
      case (Inr g)
      with eq init have "\<exists>out. run_vqe L h a r m s =
         ([Call_run_vqe h a r m s, Call_ansatz A, Call_default_rng s,
           Call_vqe_compute
             (VQE Estimator A (COBYLA m) (uniform L g (- pi) pi (num_parameters L A))) h],
          out)"
        by (simp add: Let_def)
      then obtain out where "run_vqe L h a r m s =
         ([Call_run_vqe h a r m s, Call_ansatz A, Call_default_rng s,
           Call_vqe_compute
             (VQE Estimator A (COBYLA m) (uniform L g (- pi) pi (num_parameters L A))) h],
          out)"
        by blast
      with Inr show ?thesis unfolding A_def by (rule that(4))
    qed
  qed
qed





















lemma scan_pes_Inr:
  assumes "snd (scan_pes L mb ds a r m s) = Inr t"
  shows "\<exists>V X E N.
     t = [''distances'' \<mapsto> ds, ''vqe_energies'' \<mapsto> V, ''exact_energies'' \<mapsto> X,
          ''errors'' \<mapsto> E, ''nuclear_repulsions'' \<mapsto> N] \<and>
     length V = length ds \<and> length X = length ds \<and> length E = length ds \<and>
     length N = length ds \<and>
     (\<forall>i<length ds.
        snd (scan_point L mb a r m s (length ds) i (ds ! i)) = Inr (V ! i, X ! i, E ! i, N ! i))"
proof -
  from assms obtain V X E N where
    loop: "snd (scan_loop L mb a r m s (length ds) 0 ds ([], [], [], [])) = Inr (V, X, E, N)" and
    t: "t = [''distances'' \<mapsto> ds, ''vqe_energies'' \<mapsto> V, ''exact_energies'' \<mapsto> X,
          ''errors'' \<mapsto> E, ''nuclear_repulsions'' \<mapsto> N]"
    by (auto simp: scan_pes_def snd_py_bind py_return_def split: sum.splits prod.splits)
  from scan_loop_Inr [OF loop] obtain pts where
    pts: "length pts = length ds"
      "V = map (\<lambda>(v, x, e, u). v) pts" "X = map (\<lambda>(v, x, e, u). x) pts"
      "E = map (\<lambda>(v, x, e, u). e) pts" "N = map (\<lambda>(v, x, e, u). u) pts"
      "\<forall>k<length ds. snd (scan_point L mb a r m s (length ds) k (ds ! k)) = Inr (pts ! k)"
    by auto
  have "\<forall>i<length ds.
        snd (scan_point L mb a r m s (length ds) i (ds ! i)) = Inr (V ! i, X ! i, E ! i, N ! i)"
  proof (intro allI impI)
    fix i assume i: "i < length ds"
    obtain v x e u where p: "pts ! i = (v, x, e, u)" by (cases "pts ! i") auto
    with i pts show "snd (scan_point L mb a r m s (length ds) i (ds ! i))
                       = Inr (V ! i, X ! i, E ! i, N ! i)"
      by simp
  qed
  moreover have "length V = length ds" "length X = length ds" "length E = length ds"
    "length N = length ds"
    using pts by simp_all
  ultimately show ?thesis using t by blast
qed

lemma scan_pes_Inl:
  "snd (scan_pes L mb ds a r m s) = Inl e \<longleftrightarrow>
     snd (scan_loop L mb a r m s (length ds) 0 ds ([], [], [], [])) = Inl e"
  by (auto simp: scan_pes_def snd_py_bind py_return_def split: sum.splits prod.splits)

lemma run_vqe_calls_scan_pes:
  "run_vqe_calls (fst (scan_pes L mb ds a r m s)) =
     run_vqe_calls (fst (scan_loop L mb a r m s (length ds) 0 ds ([], [], [], [])))"
  by (auto simp: scan_pes_def fst_py_bind py_return_def split: sum.splits prod.splits)




section \<open>The claims\<close>

text \<open>The definitions that evaluate the model on the concrete instance.\<close>

lemmas toy_eval = scan_pes_def scan_loop.simps scan_point_def run_vqe_def new_ansatz_def
  exact_energy_def toy_libs_def toy_builder_def py_call_def py_emit_def py_return_def py_raise_def Let_def

subsection \<open>The result table\<close>

text \<open>
  C10: for the empty geometry sequence \<open>scan_pes\<close> succeeds, its trace is empty (neither the
  molecule builder nor \<open>run_vqe\<close> nor \<open>exact_energy\<close> is called, and nothing is printed),
  and all five sequences of the returned mapping are empty.
\<close>

theorem scan_pes_empty:
  "scan_pes L mb [] a r m s =
     ([], Inr [''distances'' \<mapsto> [], ''vqe_energies'' \<mapsto> [], ''exact_energies'' \<mapsto> [],
               ''errors'' \<mapsto> [], ''nuclear_repulsions'' \<mapsto> []])"
  by (simp add: scan_pes_def py_return_def)

text \<open>
  C1: when \<open>scan_pes\<close> returns a table for \<open>n\<close> geometry points, the table is a mapping with
  exactly the five keys \<open>distances\<close>, \<open>vqe_energies\<close>, \<open>exact_energies\<close>, \<open>errors\<close> and
  \<open>nuclear_repulsions\<close>; every one of its sequences has length \<open>n\<close>; \<open>distances\<close> is the
  input sequence itself; and entry \<open>i\<close> of the four computed sequences is what the loop body
  computes at index \<open>i\<close> from the \<open>i\<close>-th input point.
\<close>

theorem scan_pes_table_shape:
  assumes "snd (scan_pes L mb ds a r m s) = Inr t"
  shows "dom t = {''distances'', ''vqe_energies'', ''exact_energies'', ''errors'',
                  ''nuclear_repulsions''} \<and>
         (\<forall>key\<in>dom t. \<exists>xs. t key = Some xs \<and> length xs = length ds) \<and>
         t ''distances'' = Some ds \<and>
         (\<exists>V X E N. t ''vqe_energies'' = Some V \<and> t ''exact_energies'' = Some X \<and>
            t ''errors'' = Some E \<and> t ''nuclear_repulsions'' = Some N \<and>
            (\<forall>i<length ds.
               snd (scan_point L mb a r m s (length ds) i (ds ! i)) =
                 Inr (V ! i, X ! i, E ! i, N ! i)))"
proof -
  from scan_pes_Inr [OF assms] obtain V X E N where
    t: "t = [''distances'' \<mapsto> ds, ''vqe_energies'' \<mapsto> V, ''exact_energies'' \<mapsto> X,
          ''errors'' \<mapsto> E, ''nuclear_repulsions'' \<mapsto> N]" and
    len: "length V = length ds" "length X = length ds" "length E = length ds"
      "length N = length ds" and
    pts: "\<forall>i<length ds.
        snd (scan_point L mb a r m s (length ds) i (ds ! i)) = Inr (V ! i, X ! i, E ! i, N ! i)"
    by blast
  have d: "dom t = {''distances'', ''vqe_energies'', ''exact_energies'', ''errors'',
                  ''nuclear_repulsions''}"
    unfolding t by auto
  have l: "\<forall>key\<in>dom t. \<exists>xs. t key = Some xs \<and> length xs = length ds"
    unfolding d using len by (simp add: t)
  have v: "t ''distances'' = Some ds" "t ''vqe_energies'' = Some V"
    "t ''exact_energies'' = Some X" "t ''errors'' = Some E" "t ''nuclear_repulsions'' = Some N"
    by (simp_all add: t)
  from d l v pts show ?thesis by blast
qed

theorem scan_pes_table_shape_witness:
  "snd (scan_pes toy_libs toy_builder [1, 2] ''RealAmplitudes'' 1 200 42) = Inr toy_table \<and>
   dom toy_table =
     {''distances'', ''vqe_energies'', ''exact_energies'', ''errors'', ''nuclear_repulsions''} \<and>
   toy_table ''distances'' = Some [1, 2]"
proof -
  have h: "snd (scan_pes toy_libs toy_builder [1, 2] ''RealAmplitudes'' 1 200 42) = Inr toy_table"
    by (simp add: toy_eval toy_table_def)
  note shape = scan_pes_table_shape [OF h]
  from h conjunct1 [OF shape] conjunct1 [OF conjunct2 [OF conjunct2 [OF shape]]]
  show ?thesis by (intro conjI)
qed

text \<open>
  C3: in a returned table, at every point \<open>i\<close>, \<open>vqe_energies[i]\<close> is the \<open>energy\<close> that
  \<open>run_vqe\<close> returns for the operator of that point plus \<open>nuclear_repulsions[i]\<close>,
  \<open>exact_energies[i]\<close> is the real part of the eigenvalue of the exact eigensolver for the
  same operator plus \<open>nuclear_repulsions[i]\<close>, \<open>nuclear_repulsions[i]\<close> is the nuclear
  repulsion energy the builder reports for that point, and \<open>errors[i]\<close> is the absolute
  value of the difference of the two total energies; so no entry of \<open>errors\<close> is negative.
\<close>

theorem scan_pes_energies:
  assumes "snd (scan_pes L mb ds a r m s) = Inr t"
  shows "\<exists>V X E N.
     t ''vqe_energies'' = Some V \<and> t ''exact_energies'' = Some X \<and> t ''errors'' = Some E \<and>
     t ''nuclear_repulsions'' = Some N \<and>
     (\<forall>i<length ds. \<exists>op prob res z.
        mb (ds ! i) = Inr (op, prob) \<and>
        snd (run_vqe L op a r m (s + int i)) = Inr res \<and>
        numpy_compute_minimum_eigenvalue L op = Inr z \<and>
        N ! i = nuclear_repulsion_energy prob \<and>
        V ! i = energy res + N ! i \<and>
        X ! i = Re z + N ! i \<and>
        E ! i = \<bar>V ! i - X ! i\<bar>) \<and>
     (\<forall>e\<in>set E. 0 \<le> e)"
proof -
  from scan_pes_Inr [OF assms] obtain V X E N where
    t: "t = [''distances'' \<mapsto> ds, ''vqe_energies'' \<mapsto> V, ''exact_energies'' \<mapsto> X,
          ''errors'' \<mapsto> E, ''nuclear_repulsions'' \<mapsto> N]" and
    len: "length E = length ds" and
    pts: "\<forall>i<length ds.
        snd (scan_point L mb a r m s (length ds) i (ds ! i)) = Inr (V ! i, X ! i, E ! i, N ! i)"
    by blast
  have v: "t ''vqe_energies'' = Some V"
    "t ''exact_energies'' = Some X" "t ''errors'' = Some E" "t ''nuclear_repulsions'' = Some N"
    by (simp_all add: t)
  have body: "\<forall>i<length ds. \<exists>op prob res z.
        mb (ds ! i) = Inr (op, prob) \<and>
        snd (run_vqe L op a r m (s + int i)) = Inr res \<and>
        numpy_compute_minimum_eigenvalue L op = Inr z \<and>
        N ! i = nuclear_repulsion_energy prob \<and>
        V ! i = energy res + N ! i \<and>
        X ! i = Re z + N ! i \<and>
        E ! i = \<bar>V ! i - X ! i\<bar>"
  proof (intro allI impI)
    fix i assume "i < length ds"
    with pts have "snd (scan_point L mb a r m s (length ds) i (ds ! i))
                     = Inr (V ! i, X ! i, E ! i, N ! i)"
      by blast
    then show "\<exists>op prob res z.
        mb (ds ! i) = Inr (op, prob) \<and>
        snd (run_vqe L op a r m (s + int i)) = Inr res \<and>
        numpy_compute_minimum_eigenvalue L op = Inr z \<and>
        N ! i = nuclear_repulsion_energy prob \<and>
        V ! i = energy res + N ! i \<and>
        X ! i = Re z + N ! i \<and>
        E ! i = \<bar>V ! i - X ! i\<bar>"
      unfolding snd_scan_point_Inr snd_exact_energy_Inr by blast
  qed
  have nonneg: "\<forall>e\<in>set E. 0 \<le> e"
  proof
    fix e assume "e \<in> set E"
    then obtain i where i: "i < length E" "E ! i = e" by (auto simp: in_set_conv_nth)
    with len body have "E ! i = \<bar>V ! i - X ! i\<bar>" by auto
    with i show "0 \<le> e" by simp
  qed
  from v body nonneg show ?thesis by blast
qed

theorem scan_pes_energies_witness:
  "snd (scan_pes toy_libs toy_builder [1, 2] ''RealAmplitudes'' 1 200 42) = Inr toy_table \<and>
   toy_table ''errors'' = Some [1 / 8, 1 / 8] \<and>
   0 \<le> the (toy_table ''errors'') ! 1"
proof -
  have h: "snd (scan_pes toy_libs toy_builder [1, 2] ''RealAmplitudes'' 1 200 42) = Inr toy_table"
    by (simp add: toy_eval toy_table_def)
  have e: "toy_table ''errors'' = Some [1 / 8, 1 / 8]"
    by (simp add: toy_table_def)
  from scan_pes_energies [OF h] obtain V X E N where
    E: "toy_table ''errors'' = Some E" "\<forall>e\<in>set E. 0 \<le> e"
    by (elim exE conjE)
  from E(1) e have "E = [1 / 8, 1 / 8]" by simp
  with E have "0 \<le> the (toy_table ''errors'') ! 1" by simp
  with h e show ?thesis by (intro conjI)
qed

subsection \<open>Seeds\<close>




subsection \<open>Failure of a scan\<close>

text \<open>
  C7: if the points before index \<open>k\<close> have been computed and the computation at point \<open>k\<close>
  fails, because the molecule builder raises, or \<open>run_vqe\<close> raises, or \<open>exact_energy\<close>
  raises, then \<open>scan_pes\<close> fails with that very error instead of returning a table: the
  results of the points already computed are lost. And whenever the computation at some
  point of the sequence fails, the scan fails.
\<close>

theorem scan_pes_fail_fast:
  "(k < length ds \<and>
    (\<forall>j<k. \<exists>pt. snd (scan_point L mb a r m s (length ds) j (ds ! j)) = Inr pt) \<and>
    ((\<exists>x. mb (ds ! k) = Inl x \<and> e = LibraryError x) \<or>
     (\<exists>op prob. mb (ds ! k) = Inr (op, prob) \<and>
        (snd (run_vqe L op a r m (s + int k)) = Inl e \<or>
         (\<exists>res. snd (run_vqe L op a r m (s + int k)) = Inr res \<and>
            snd (exact_energy L op) = Inl e))))
    \<longrightarrow> snd (scan_pes L mb ds a r m s) = Inl e) \<and>
   ((\<exists>i<length ds. \<exists>e'. snd (scan_point L mb a r m s (length ds) i (ds ! i)) = Inl e')
    \<longrightarrow> (\<exists>e'. snd (scan_pes L mb ds a r m s) = Inl e'))"
proof (intro conjI impI)
  assume H: "k < length ds \<and>
    (\<forall>j<k. \<exists>pt. snd (scan_point L mb a r m s (length ds) j (ds ! j)) = Inr pt) \<and>
    ((\<exists>x. mb (ds ! k) = Inl x \<and> e = LibraryError x) \<or>
     (\<exists>op prob. mb (ds ! k) = Inr (op, prob) \<and>
        (snd (run_vqe L op a r m (s + int k)) = Inl e \<or>
         (\<exists>res. snd (run_vqe L op a r m (s + int k)) = Inr res \<and>
            snd (exact_energy L op) = Inl e))))"
  then have "snd (scan_point L mb a r m s (length ds) k (ds ! k)) = Inl e"
    unfolding snd_scan_point_Inl by (elim conjE)
  with H have
    "\<exists>k<length ds. snd (scan_point L mb a r m s (length ds) (0 + k) (ds ! k)) = Inl e \<and>
        (\<forall>j<k. \<exists>pt. snd (scan_point L mb a r m s (length ds) (0 + j) (ds ! j)) = Inr pt)"
    by auto
  then have "snd (scan_loop L mb a r m s (length ds) 0 ds ([], [], [], [])) = Inl e"
    unfolding scan_loop_Inl .
  then show "snd (scan_pes L mb ds a r m s) = Inl e"
    unfolding scan_pes_Inl .
next
  assume "\<exists>i<length ds. \<exists>e'. snd (scan_point L mb a r m s (length ds) i (ds ! i)) = Inl e'"
  then obtain i e' where i: "i < length ds"
    "snd (scan_point L mb a r m s (length ds) i (ds ! i)) = Inl e'"
    by blast
  show "\<exists>e'. snd (scan_pes L mb ds a r m s) = Inl e'"
  proof (cases "snd (scan_pes L mb ds a r m s)")
    case (Inl e0)
    then show ?thesis by blast
  next
    case (Inr t)
    from scan_pes_Inr [OF Inr] i(1) obtain pt where
      "snd (scan_point L mb a r m s (length ds) i (ds ! i)) = Inr pt"
      by blast
    with i(2) show ?thesis by simp
  qed
qed

theorem scan_pes_fail_fast_witness:
  "snd (scan_pes toy_libs toy_builder [1, 0, 2] ''RealAmplitudes'' 1 200 42) =
     Inl (LibraryError ''bad geometry'')"
proof -
  have 1: "(1::nat) < length [1, 0, 2 :: real]" by simp
  have p0: "snd (scan_point toy_libs toy_builder ''RealAmplitudes'' 1 200 42
              (length [1, 0, 2 :: real]) 0 ([1, 0, 2] ! 0)) = Inr (0, - (1 / 8), 1 / 8, 1)"
    by (simp add: toy_eval)
  have 2: "\<forall>j<(1::nat). \<exists>pt. snd (scan_point toy_libs toy_builder ''RealAmplitudes'' 1 200 42
              (length [1, 0, 2 :: real]) j ([1, 0, 2] ! j)) = Inr pt"
  proof (intro allI impI)
    fix j :: nat assume "j < 1"
    then have j: "j = 0" by simp
    show "\<exists>pt. snd (scan_point toy_libs toy_builder ''RealAmplitudes'' 1 200 42
              (length [1, 0, 2 :: real]) j ([1, 0, 2] ! j)) = Inr pt"
      unfolding j using p0 by (rule exI)
  qed
  have 3: "(\<exists>x. toy_builder ([1, 0, 2] ! 1) = Inl x \<and>
              LibraryError ''bad geometry'' = LibraryError x) \<or>
         (\<exists>op prob. toy_builder ([1, 0, 2] ! 1) = Inr (op, prob) \<and>
            (snd (run_vqe toy_libs op ''RealAmplitudes'' 1 200 (42 + int 1)) =
               Inl (LibraryError ''bad geometry'') \<or>
             (\<exists>res. snd (run_vqe toy_libs op ''RealAmplitudes'' 1 200 (42 + int 1)) = Inr res \<and>
                snd (exact_energy toy_libs op) = Inl (LibraryError ''bad geometry''))))"
    by (simp add: toy_builder_def)
  from 1 2 3 have "(1::nat) < length [1, 0, 2 :: real] \<and>
    (\<forall>j<(1::nat). \<exists>pt. snd (scan_point toy_libs toy_builder ''RealAmplitudes'' 1 200 42
              (length [1, 0, 2 :: real]) j ([1, 0, 2] ! j)) = Inr pt) \<and>
    ((\<exists>x. toy_builder ([1, 0, 2] ! 1) = Inl x \<and>
              LibraryError ''bad geometry'' = LibraryError x) \<or>
         (\<exists>op prob. toy_builder ([1, 0, 2] ! 1) = Inr (op, prob) \<and>
            (snd (run_vqe toy_libs op ''RealAmplitudes'' 1 200 (42 + int 1)) =
               Inl (LibraryError ''bad geometry'') \<or>
             (\<exists>res. snd (run_vqe toy_libs op ''RealAmplitudes'' 1 200 (42 + int 1)) = Inr res \<and>
                snd (exact_energy toy_libs op) = Inl (LibraryError ''bad geometry'')))))"
    by (intro conjI)
  with conjunct1 [OF scan_pes_fail_fast
      [of 1 "[1, 0, 2]" toy_libs toy_builder "''RealAmplitudes''" 1 200 42
          "LibraryError ''bad geometry''"]]
  show ?thesis by (rule mp)
qed

subsection \<open>The VQE runner\<close>

text \<open>
  C5: \<open>run_vqe\<close> accepts exactly the ansatz names \<open>RealAmplitudes\<close> and \<open>EfficientSU2\<close>. For
  every other name it raises \<open>ValueError\<close> and its trace holds nothing but the record of
  its own invocation: no ansatz is constructed, no generator is made and the optimisation
  loop (and with it any energy evaluation) is not entered. For the two supported names it
  never raises this \<open>ValueError\<close>: the first thing it does is to call the constructor of the
  ansatz of the requested name, if the constructor accepts its arguments the generator is
  made next, and any optimisation it starts runs on the ansatz of the requested name.
\<close>

theorem run_vqe_ansatz_kinds:
  "(atype \<noteq> ''RealAmplitudes'' \<and> atype \<noteq> ''EfficientSU2'' \<longrightarrow>
      run_vqe L h atype reps maxiter seed =
        ([Call_run_vqe h atype reps maxiter seed],
         Inl (ValueError (''Unknown ansatz type: '' @ atype)))) \<and>
   (atype = ''RealAmplitudes'' \<or> atype = ''EfficientSU2'' \<longrightarrow>
      (\<forall>msg. snd (run_vqe L h atype reps maxiter seed) \<noteq> Inl (ValueError msg)) \<and>
      take 2 (fst (run_vqe L h atype reps maxiter seed)) =
        [Call_run_vqe h atype reps maxiter seed,
         Call_ansatz
           (if atype = ''RealAmplitudes'' then RealAmplitudes (num_qubits L h) reps ''linear''
            else EfficientSU2 (num_qubits L h) reps ''circular'')] \<and>
      (ansatz_init L
           (if atype = ''RealAmplitudes'' then RealAmplitudes (num_qubits L h) reps ''linear''
            else EfficientSU2 (num_qubits L h) reps ''circular'') = Inr () \<longrightarrow>
         fst (run_vqe L h atype reps maxiter seed) ! 2 = Call_default_rng seed) \<and>
      (\<forall>v h'. Call_vqe_compute v h' \<in> set (fst (run_vqe L h atype reps maxiter seed)) \<longrightarrow>
         vqe_ansatz v =
           (if atype = ''RealAmplitudes'' then RealAmplitudes (num_qubits L h) reps ''linear''
            else EfficientSU2 (num_qubits L h) reps ''circular'')))"
proof (intro conjI impI)
  assume "atype \<noteq> ''RealAmplitudes'' \<and> atype \<noteq> ''EfficientSU2''"
  then show "run_vqe L h atype reps maxiter seed =
        ([Call_run_vqe h atype reps maxiter seed],
         Inl (ValueError (''Unknown ansatz type: '' @ atype)))"
    by (simp add: run_vqe_unsupported)
next
  assume s: "atype = ''RealAmplitudes'' \<or> atype = ''EfficientSU2''"
  show "\<forall>msg. snd (run_vqe L h atype reps maxiter seed) \<noteq> Inl (ValueError msg)"
    unfolding run_vqe_supported [OF s] by (simp add: Let_def split: sum.splits)
next
  assume s: "atype = ''RealAmplitudes'' \<or> atype = ''EfficientSU2''"
  show "take 2 (fst (run_vqe L h atype reps maxiter seed)) =
        [Call_run_vqe h atype reps maxiter seed,
         Call_ansatz
           (if atype = ''RealAmplitudes'' then RealAmplitudes (num_qubits L h) reps ''linear''
            else EfficientSU2 (num_qubits L h) reps ''circular'')]"
    unfolding run_vqe_supported [OF s] by (simp add: Let_def split: sum.splits)
next
  assume s: "atype = ''RealAmplitudes'' \<or> atype = ''EfficientSU2''"
    and "ansatz_init L
           (if atype = ''RealAmplitudes'' then RealAmplitudes (num_qubits L h) reps ''linear''
            else EfficientSU2 (num_qubits L h) reps ''circular'') = Inr ()"
  then show "fst (run_vqe L h atype reps maxiter seed) ! 2 = Call_default_rng seed"
    unfolding run_vqe_supported [OF s] by (simp add: Let_def split: sum.splits)
next
  assume s: "atype = ''RealAmplitudes'' \<or> atype = ''EfficientSU2''"
  show "\<forall>v h'. Call_vqe_compute v h' \<in> set (fst (run_vqe L h atype reps maxiter seed)) \<longrightarrow>
         vqe_ansatz v =
           (if atype = ''RealAmplitudes'' then RealAmplitudes (num_qubits L h) reps ''linear''
            else EfficientSU2 (num_qubits L h) reps ''circular'')"
    unfolding run_vqe_supported [OF s] by (auto simp: Let_def split: sum.splits)
qed

theorem run_vqe_ansatz_kinds_witness:
  "run_vqe toy_libs 2 ''bogus'' 3 200 42 =
     ([Call_run_vqe 2 ''bogus'' 3 200 42], Inl (ValueError ''Unknown ansatz type: bogus'')) \<and>
   take 2 (fst (run_vqe toy_libs 2 ''EfficientSU2'' 3 200 42)) =
     [Call_run_vqe 2 ''EfficientSU2'' 3 200 42, Call_ansatz (EfficientSU2 2 3 ''circular'')] \<and>
   fst (run_vqe toy_libs 2 ''EfficientSU2'' 3 200 42) ! 2 = Call_default_rng 42 \<and>
   run_vqe toy_libs 2 ''EfficientSU2'' (- 1) 200 42 =
     ([Call_run_vqe 2 ''EfficientSU2'' (- 1) 200 42,
       Call_ansatz (EfficientSU2 2 (- 1) ''circular'')],
      Inl (LibraryError ''negative reps''))"
proof -
  have u: "run_vqe toy_libs 2 ''bogus'' 3 200 42 =
     ([Call_run_vqe 2 ''bogus'' 3 200 42], Inl (ValueError ''Unknown ansatz type: bogus''))"
    using run_vqe_ansatz_kinds [of "''bogus''" toy_libs 2 3 200 42] by simp
  have i: "ansatz_init toy_libs (EfficientSU2 2 3 ''circular'') = Inr ()"
    by (simp add: toy_libs_def)
  have q: "num_qubits toy_libs 2 = 2" by (simp add: toy_libs_def)
  have t: "take 2 (fst (run_vqe toy_libs 2 ''EfficientSU2'' 3 200 42)) =
     [Call_run_vqe 2 ''EfficientSU2'' 3 200 42, Call_ansatz (EfficientSU2 2 3 ''circular'')]"
    using run_vqe_ansatz_kinds [of "''EfficientSU2''" toy_libs 2 3 200 42] q by simp
  have d: "fst (run_vqe toy_libs 2 ''EfficientSU2'' 3 200 42) ! 2 = Call_default_rng 42"
    using run_vqe_ansatz_kinds [of "''EfficientSU2''" toy_libs 2 3 200 42] q i by simp
  have n: "run_vqe toy_libs 2 ''EfficientSU2'' (- 1) 200 42 =
     ([Call_run_vqe 2 ''EfficientSU2'' (- 1) 200 42,
       Call_ansatz (EfficientSU2 2 (- 1) ''circular'')],
      Inl (LibraryError ''negative reps''))"
    by (simp add: toy_eval)
  from u t d n show ?thesis by (intro conjI)
qed

text \<open>
  C6: whenever \<open>run_vqe\<close> starts the optimisation, the initial point of the solver is what the
  generator made from the caller's seed returns for \<open>uniform(-pi, pi, ansatz.num_parameters)\<close>.
  Given NumPy's contract for \<open>uniform\<close> (for \<open>low < high\<close> it returns \<open>size\<close> values, each in
  \<open>[low, high)\<close>), the initial point has as many components as the ansatz has parameters, and
  every component lies in \<open>[-pi, pi]\<close>.
\<close>

theorem run_vqe_initial_point:
  assumes "\<forall>g lo hi k. lo < hi \<longrightarrow>
             length (uniform L g lo hi k) = k \<and> (\<forall>x\<in>set (uniform L g lo hi k). lo \<le> x \<and> x < hi)"
    and "Call_vqe_compute v h' \<in> set (fst (run_vqe L h atype reps maxiter seed))"
  shows "\<exists>g. default_rng L seed = Inr g \<and>
           vqe_initial_point v = uniform L g (- pi) pi (num_parameters L (vqe_ansatz v)) \<and>
           length (vqe_initial_point v) = num_parameters L (vqe_ansatz v) \<and>
           (\<forall>x\<in>set (vqe_initial_point v). - pi \<le> x \<and> x \<le> pi)"
proof -
  from assms(2) obtain g where
    g: "default_rng L seed = Inr g" and
    ip: "vqe_initial_point v = uniform L g (- pi) pi (num_parameters L (vqe_ansatz v))"
    by (cases rule: run_vqe_cases [of L h atype reps maxiter seed]) auto
  have "- pi < pi" by simp
  with assms(1) have
    "length (uniform L g (- pi) pi (num_parameters L (vqe_ansatz v))) =
       num_parameters L (vqe_ansatz v)"
    "\<forall>x\<in>set (uniform L g (- pi) pi (num_parameters L (vqe_ansatz v))). - pi \<le> x \<and> x < pi"
    by blast+
  with g ip show ?thesis by (intro exI [of _ g]) (auto simp: less_imp_le)
qed

theorem run_vqe_initial_point_witness:
  "Call_vqe_compute (VQE Estimator (RealAmplitudes 2 1 ''linear'') (COBYLA 200)
       (replicate 4 (- pi))) 2
     \<in> set (fst (run_vqe toy_libs 2 ''RealAmplitudes'' 1 200 42)) \<and>
   length (replicate 4 (- pi)) = num_parameters toy_libs (RealAmplitudes 2 1 ''linear'') \<and>
   - pi \<le> replicate 4 (- pi) ! 3 \<and> replicate 4 (- pi) ! 3 \<le> pi"
proof -
  have c: "\<forall>g lo hi k. lo < hi \<longrightarrow>
             length (uniform toy_libs g lo hi k) = k \<and>
             (\<forall>x\<in>set (uniform toy_libs g lo hi k). lo \<le> x \<and> x < hi)"
    by (simp add: toy_libs_def)
  have m: "Call_vqe_compute (VQE Estimator (RealAmplitudes 2 1 ''linear'') (COBYLA 200)
       (replicate 4 (- pi))) 2
     \<in> set (fst (run_vqe toy_libs 2 ''RealAmplitudes'' 1 200 42))"
    by (simp add: toy_eval)
  from run_vqe_initial_point [OF c m] m show ?thesis by auto
qed

subsection \<open>The geometry of BeH2\<close>

text \<open>
  C9: for every bond angle \<open>angle\<close> in degrees, the coordinate string that \<open>build_beh2\<close> hands
  to the chemistry pipeline places Be at the origin and the two H atoms at
  \<open>(0, y, z)\<close> and \<open>(0, -y, z)\<close> with \<open>y = d * sin(angle/2)\<close> and \<open>z = d * cos(angle/2)\<close>, where
  \<open>d = 1.326\<close> and the half angle is converted to radians; both H atoms are at distance \<open>d\<close>
  from Be.
\<close>

theorem build_beh2_geometry:
  "\<exists>y z. y = 1.326 * sin (angle / 2 * pi / 180) \<and> z = 1.326 * cos (angle / 2 * pi / 180) \<and>
     build_beh2 fmt6 pipeline angle =
       pipeline (''Be 0.0 0.0 0.0; H 0.0 '' @ fmt6 y @ '' '' @ fmt6 z @
                 ''; H 0.0 '' @ fmt6 (- y) @ '' '' @ fmt6 z) \<and>
     y\<^sup>2 + z\<^sup>2 = 1.326\<^sup>2"
proof -
  have bond: "(d * sin t)\<^sup>2 + (d * cos t)\<^sup>2 = d\<^sup>2" for d t :: real
  proof -
    have "(d * sin t)\<^sup>2 + (d * cos t)\<^sup>2 = d\<^sup>2 * ((sin t)\<^sup>2 + (cos t)\<^sup>2)"
      by (simp only: power_mult_distrib distrib_left)
    then show ?thesis by simp
  qed
  have "(1.326 * sin (angle / 2 * pi / 180))\<^sup>2 + (1.326 * cos (angle / 2 * pi / 180))\<^sup>2 =
          (1.326 :: real)\<^sup>2"
    by (rule bond)
  moreover have "build_beh2 fmt6 pipeline angle =
       pipeline (''Be 0.0 0.0 0.0; H 0.0 '' @ fmt6 (1.326 * sin (angle / 2 * pi / 180)) @ '' '' @
                 fmt6 (1.326 * cos (angle / 2 * pi / 180)) @
                 ''; H 0.0 '' @ fmt6 (- (1.326 * sin (angle / 2 * pi / 180))) @ '' '' @
                 fmt6 (1.326 * cos (angle / 2 * pi / 180)))"
    by (simp add: build_beh2_def beh2_atom_string_def radians_def Let_def)
  ultimately show ?thesis by blast
qed

end
